theory Spec2Isabelle
  imports Main "HOL-Library.Sublist"
begin

section \<open>The host: strings, numbers, storage and notifications\<close>

text \<open>
  The three management components (StaffManagement, TaskManagement, CourseManagement)
  are React function components. A handler reads the props and state of the render it
  was created in and issues state setters, \<^verbatim>\<open>localStorage.setItem\<close> calls and
  \<^verbatim>\<open>setPopup\<close> calls. Each handler is a function from the component (props, state,
  the browser's storage and the trace of writes and notifications issued so far) to the
  component after the handler has run. Values computed by a handler are computed from
  the component it was given, as the closure of the render does.

  What the host supplies is a parameter of the handler that uses it: \<^verbatim>\<open>JSON.parse\<close>
  (\<open>None\<close> where it throws), \<^verbatim>\<open>JSON.stringify\<close>, the answer of \<^verbatim>\<open>window.confirm\<close> and
  the result of the file reader.

  Identifiers are JavaScript numbers holding integers; they are \<^typ>\<open>int\<close> here.
  Strings are lists of characters; the case mapping and the white space of
  \<^verbatim>\<open>trim\<close> are those of ASCII.
\<close>

definition isWhitespace :: "char \<Rightarrow> bool" where
  "isWhitespace c = (c \<in> set [CHR 0x09, CHR 0x0A, CHR 0x0B, CHR 0x0C, CHR 0x0D, CHR 0x20])"

definition trim :: "string \<Rightarrow> string" where
  "trim s = rev (dropWhile isWhitespace (rev (dropWhile isWhitespace s)))"

definition lowerChar :: "char \<Rightarrow> char" where
  "lowerChar c =
     (let n = (of_char c :: nat) in if 65 \<le> n \<and> n \<le> 90 then char_of (n + 32) else c)"

definition toLowerCase :: "string \<Rightarrow> string" where
  "toLowerCase s = map lowerChar s"

fun startsWith :: "string \<Rightarrow> string \<Rightarrow> bool" where
  "startsWith s [] = True"
| "startsWith [] (q # qs) = False"
| "startsWith (c # cs) (q # qs) = (c = q \<and> startsWith cs qs)"


definition isDigit :: "char \<Rightarrow> bool" where
  "isDigit c = (let n = (of_char c :: nat) in 48 \<le> n \<and> n \<le> 57)"

text \<open>\<^verbatim>\<open>s.match(/\d+/)\<close>: the first maximal run of digits (\<^verbatim>\<open>match[0]\<close>), or
  \<^verbatim>\<open>null\<close> when the string has no digit.\<close>

definition match_digits :: "string \<Rightarrow> string option" where
  "match_digits s =
     (case takeWhile isDigit (dropWhile (\<lambda>c. \<not> isDigit c) s) of
        [] \<Rightarrow> None
      | d # ds \<Rightarrow> Some (d # ds))"

text \<open>\<^verbatim>\<open>parseInt\<close> on a string of digits.\<close>

definition digitValue :: "char \<Rightarrow> int" where
  "digitValue c = int (of_char c) - 48"

definition parseInt :: "string \<Rightarrow> int" where
  "parseInt ds = foldl (\<lambda>acc c. 10 * acc + digitValue c) 0 ds"

text \<open>\<^verbatim>\<open>String(n)\<close> for an integer \<open>n\<close>: its decimal numeral.\<close>

definition digitChar :: "nat \<Rightarrow> char" where
  "digitChar d = ''0123456789'' ! (d mod 10)"

fun String_nat :: "nat \<Rightarrow> string" where
  "String_nat n =
     (if n < 10 then [digitChar n] else String_nat (n div 10) @ [digitChar (n mod 10)])"

definition String_of :: "int \<Rightarrow> string" where
  "String_of n = (if n < 0 then CHR ''-'' # String_nat (nat (- n)) else String_nat (nat n))"

definition padStart :: "nat \<Rightarrow> char \<Rightarrow> string \<Rightarrow> string" where
  "padStart w c s = replicate (w - length s) c @ s"

text \<open>\<^verbatim>\<open>Math.max(x, ...xs)\<close> with at least one argument. The components call
  \<^verbatim>\<open>Math.max(...list)\<close> only under \<^verbatim>\<open>list.length > 0\<close>.\<close>

definition Math_max :: "int \<Rightarrow> int list \<Rightarrow> int" where
  "Math_max x xs = fold max xs x"

text \<open>\<^verbatim>\<open>list.length > 0 ? Math.max(...list) : 0\<close>\<close>

definition maxOrZero :: "int list \<Rightarrow> int" where
  "maxOrZero ns = (case ns of [] \<Rightarrow> 0 | x # xs \<Rightarrow> Math_max x xs)"

text \<open>The popup state \<^verbatim>\<open>{ show, message, type }\<close>.\<close>

record popup =
  "show" :: bool
  message :: string
  type :: string

text \<open>What a handler issues towards the outside, in program order: a write to
  \<^verbatim>\<open>localStorage\<close> and a call of \<^verbatim>\<open>setPopup\<close>.\<close>

datatype effect = SetItem string string | SetPopup popup

datatype error = SyntaxError | TypeError

text \<open>Attributes that the handlers copy and never read.\<close>

datatype attr = Num int | Str string | Bool bool

type_synonym attrs = "(string \<times> attr) list"



text \<open>What every component has: the \<^verbatim>\<open>userRole\<close> prop, the active tab, the popup, the
  browser's \<^verbatim>\<open>localStorage\<close> and the trace of effects.\<close>

record component =
  userRole :: string
  activeTab :: string
  popup :: popup
  localStorage :: "string \<rightharpoonup> string"
  trace :: "effect list"

definition isAdministrator :: "'a component_scheme \<Rightarrow> bool" where
  "isAdministrator st = (userRole st = ''Administrator'')"

definition isStaff :: "'a component_scheme \<Rightarrow> bool" where
  "isStaff st = (userRole st = ''Staff'')"

definition setPopup :: "popup \<Rightarrow> 'a component_scheme \<Rightarrow> 'a component_scheme" where
  "setPopup p st = st\<lparr>popup := p, trace := trace st @ [SetPopup p]\<rparr>"

definition setItem :: "string \<Rightarrow> string \<Rightarrow> 'a component_scheme \<Rightarrow> 'a component_scheme" where
  "setItem k v st = st\<lparr>localStorage := (localStorage st)(k \<mapsto> v), trace := trace st @ [SetItem k v]\<rparr>"


section \<open>TaskManagement\<close>

text \<open>The fields of the task form, which a task object shares.\<close>

record task_fields =
  taskName :: string
  description :: string
  category :: string
  hoursNeeded :: string
  noOfStaff :: string
  staffQualificationCriteria :: string
  department :: string
  programme :: string
  "module" :: string

record task_formData = task_fields +
  taskId :: string

record task = task_fields +
  id :: int
  taskId :: "string option"

record task_state = component +
  tasks :: "task list"
  filteredTasks :: "task list"
  editingTask :: "task option"
  selectedTask :: "task option"
  formData :: task_formData

text \<open>The numeric part of a task's \<^verbatim>\<open>taskId\<close>:
  \<^verbatim>\<open>const match = t.taskId?.match(/\d+/); return match ? parseInt(match[0]) : 0\<close>\<close>

definition taskIdNumber :: "task \<Rightarrow> int" where
  "taskIdNumber t =
     (case task.taskId t of
        None \<Rightarrow> 0
      | Some s \<Rightarrow> (case match_digits s of None \<Rightarrow> 0 | Some m \<Rightarrow> parseInt m))"

definition generateTaskId :: "task list \<Rightarrow> string" where
  "generateTaskId ts =
     (let maxId = maxOrZero (map taskIdNumber ts)
      in ''T'' @ padStart 3 (CHR ''0'') (String_of (maxId + 1)))"

definition task_sampleData :: "task list" where
  "task_sampleData =
    [\<lparr>taskName = ''Review Course Materials'',
      description = ''Review and update course materials for CS101'',
      category = ''academic'', hoursNeeded = ''40'', noOfStaff = ''2'',
      staffQualificationCriteria = ''PhD in Computer Science, 5+ years teaching experience'',
      department = ''Computer Science'', programme = ''Bachelor of Science'',
      module = ''Module 1'', task.id = 1, task.taskId = Some ''T001''\<rparr>,
     \<lparr>taskName = ''Prepare Exam Questions'',
      description = ''Create final exam questions for MATH101'',
      category = ''assessment'', hoursNeeded = ''20'', noOfStaff = ''1'',
      staffQualificationCriteria = ''PhD in Mathematics'',
      department = ''Mathematics'', programme = ''Bachelor of Science'',
      module = ''Module 2'', task.id = 2, task.taskId = Some ''T002''\<rparr>,
     \<lparr>taskName = ''Update Syllabus'',
      description = ''Update syllabus for Spring 2024 semester'',
      category = ''administrative'', hoursNeeded = ''15'', noOfStaff = ''1'',
      staffQualificationCriteria = ''Senior lecturer or above'',
      department = ''Computer Science'', programme = ''Master of Science'',
      module = ''Module 3'', task.id = 3, task.taskId = Some ''T003''\<rparr>]"


text \<open>The effect on \<^verbatim>\<open>[tasks.length, editingTask]\<close>.\<close>

definition autoUpdateTaskId :: "task_state \<Rightarrow> task_state" where
  "autoUpdateTaskId st =
     (if editingTask st = None
      then st\<lparr>formData := (formData st)\<lparr>task_formData.taskId := generateTaskId (tasks st)\<rparr>\<rparr>
      else st)"


definition saveTasksToStorage :: "(task list \<Rightarrow> string) \<Rightarrow> task list \<Rightarrow> task_state \<Rightarrow> task_state" where
  "saveTasksToStorage JSON_stringify tasksList st = setItem ''tasks'' (JSON_stringify tasksList) st"

definition task_requiredMissing :: "task_formData \<Rightarrow> bool" where
  "task_requiredMissing fd = (trim (taskName fd) = [] \<or> trim (description fd) = [])"

definition requiredFieldsPopup :: popup where
  "requiredFieldsPopup = \<lparr>show = True, message = ''Please fill in all required fields.'', type = ''error''\<rparr>"

text \<open>The form after a reset; the new \<^verbatim>\<open>taskId\<close> is generated from the tasks of the
  render the handler belongs to.\<close>

definition task_resetForm :: "task list \<Rightarrow> task_formData" where
  "task_resetForm ts =
     \<lparr>taskName = [], description = [], category = ''general'', hoursNeeded = [],
      noOfStaff = [], staffQualificationCriteria = [], department = [], programme = [],
      module = [], task_formData.taskId = generateTaskId ts\<rparr>"

text \<open>\<^verbatim>\<open>{ id: maxId + 1, ...formData, taskId: formData.taskId || generateTaskId() }\<close>\<close>

definition newTask :: "task list \<Rightarrow> task_formData \<Rightarrow> task" where
  "newTask ts fd =
     (let maxId = maxOrZero (map task.id ts)
      in \<lparr>taskName = taskName fd, description = description fd, category = category fd,
          hoursNeeded = hoursNeeded fd, noOfStaff = noOfStaff fd,
          staffQualificationCriteria = staffQualificationCriteria fd,
          department = department fd, programme = programme fd, module = module fd,
          task.id = maxId + 1,
          task.taskId = Some (if task_formData.taskId fd \<noteq> [] then task_formData.taskId fd
                              else generateTaskId ts)\<rparr>)"

definition handleTaskAdded :: "(task list \<Rightarrow> string) \<Rightarrow> task_state \<Rightarrow> task_state" where
  "handleTaskAdded JSON_stringify st =
     (if task_requiredMissing (formData st) then setPopup requiredFieldsPopup st
      else
        let updatedTasks = tasks st @ [newTask (tasks st) (formData st)];
            s1 = st\<lparr>tasks := updatedTasks\<rparr>;
            s2 = s1\<lparr>filteredTasks := updatedTasks\<rparr>;
            s3 = saveTasksToStorage JSON_stringify updatedTasks s2;
            s4 = s3\<lparr>activeTab := ''view-tasks''\<rparr>;
            s5 = s4\<lparr>formData := task_resetForm (tasks st)\<rparr>
        in setPopup \<lparr>show = True, message = ''Task added successfully!'', type = ''success''\<rparr> s5)"

text \<open>\<^verbatim>\<open>{ ...task, ...formData }\<close>\<close>

definition task_merge :: "task \<Rightarrow> task_formData \<Rightarrow> task" where
  "task_merge t fd =
     \<lparr>taskName = taskName fd, description = description fd, category = category fd,
      hoursNeeded = hoursNeeded fd, noOfStaff = noOfStaff fd,
      staffQualificationCriteria = staffQualificationCriteria fd,
      department = department fd, programme = programme fd, module = module fd,
      task.id = task.id t, task.taskId = Some (task_formData.taskId fd)\<rparr>"

text \<open>\<^verbatim>\<open>handleTaskUpdated\<close> reads \<^verbatim>\<open>editingTask.id\<close> inside the callback of \<^verbatim>\<open>map\<close>: with
  no task in edit and a task in the list that read throws a TypeError.\<close>

definition handleTaskUpdated :: "(task list \<Rightarrow> string) \<Rightarrow> task_state \<Rightarrow> error + task_state" where
  "handleTaskUpdated JSON_stringify st =
     (if task_requiredMissing (formData st) then Inr (setPopup requiredFieldsPopup st)
      else if editingTask st = None \<and> tasks st \<noteq> [] then Inl TypeError
      else
        let updatedList =
              map (\<lambda>t. if Some (task.id t) = map_option task.id (editingTask st)
                        then task_merge t (formData st) else t) (tasks st);
            s1 = st\<lparr>tasks := updatedList\<rparr>;
            s2 = s1\<lparr>filteredTasks := updatedList\<rparr>;
            s3 = saveTasksToStorage JSON_stringify updatedList s2;
            s4 = s3\<lparr>editingTask := None\<rparr>;
            s5 = s4\<lparr>activeTab := ''view-tasks''\<rparr>;
            s6 = s5\<lparr>formData := task_resetForm (tasks st)\<rparr>
        in Inr (setPopup \<lparr>show = True, message = ''Task updated successfully!'', type = ''success''\<rparr> s6))"

text \<open>\<^verbatim>\<open>handleDeleteTask(id)\<close>; \<open>confirm\<close> is the answer of the blocking
  \<^verbatim>\<open>window.confirm\<close> dialog, asked only of an administrator.\<close>

definition handleDeleteTask :: "(task list \<Rightarrow> string) \<Rightarrow> bool \<Rightarrow> int \<Rightarrow> task_state \<Rightarrow> task_state" where
  "handleDeleteTask JSON_stringify confirm i st =
     (if \<not> isAdministrator st
      then setPopup \<lparr>show = True, message = ''You do not have permission to delete tasks.'',
                      type = ''error''\<rparr> st
      else if confirm then
        let updatedList = filter (\<lambda>t. task.id t \<noteq> i) (tasks st);
            s1 = st\<lparr>tasks := updatedList\<rparr>;
            s2 = s1\<lparr>filteredTasks := updatedList\<rparr>;
            s3 = saveTasksToStorage JSON_stringify updatedList s2;
            s4 = (case selectedTask st of
                    Some sel \<Rightarrow> if task.id sel = i then s3\<lparr>selectedTask := None\<rparr> else s3
                  | None \<Rightarrow> s3)
        in setPopup \<lparr>show = True, message = ''Task deleted successfully!'', type = ''delete''\<rparr> s4
      else st)"

text \<open>\<^verbatim>\<open>task.taskId || generateTaskId()\<close> and the other defaults of \<^verbatim>\<open>handleEditTask\<close>.\<close>

definition task_formOf :: "task list \<Rightarrow> task \<Rightarrow> task_formData" where
  "task_formOf ts t =
     \<lparr>taskName = taskName t, description = description t,
      category = (if category t \<noteq> [] then category t else ''general''),
      hoursNeeded = hoursNeeded t, noOfStaff = noOfStaff t,
      staffQualificationCriteria = staffQualificationCriteria t,
      department = department t, programme = programme t, module = module t,
      task_formData.taskId =
        (case task.taskId t of
           Some s \<Rightarrow> if s \<noteq> [] then s else generateTaskId ts
         | None \<Rightarrow> generateTaskId ts)\<rparr>"

definition handleEditTask :: "task \<Rightarrow> task_state \<Rightarrow> task_state" where
  "handleEditTask t st =
     (if \<not> isAdministrator st
      then setPopup \<lparr>show = True, message = ''You do not have permission to edit tasks.'',
                      type = ''error''\<rparr> st
      else st\<lparr>editingTask := Some t, formData := task_formOf (tasks st) t, activeTab := ''add-task''\<rparr>)"

definition handleViewTask :: "task \<Rightarrow> task_state \<Rightarrow> task_state" where
  "handleViewTask t st = st\<lparr>selectedTask := Some t, activeTab := ''task-details''\<rparr>"

text \<open>The form's \<^verbatim>\<open>onSubmit\<close>.\<close>

definition task_handleSubmit :: "(task list \<Rightarrow> string) \<Rightarrow> task_state \<Rightarrow> error + task_state" where
  "task_handleSubmit JSON_stringify st =
     (if editingTask st \<noteq> None then handleTaskUpdated JSON_stringify st
      else Inr (handleTaskAdded JSON_stringify st))"

text \<open>The form, and with it the only caller of \<^verbatim>\<open>handleSubmit\<close>, is rendered under
  \<^verbatim>\<open>activeTab === 'add-task' && isAdministrator\<close>.\<close>

definition task_formRendered :: "task_state \<Rightarrow> bool" where
  "task_formRendered st = (activeTab st = ''add-task'' \<and> isAdministrator st)"

section \<open>CourseManagement\<close>

text \<open>A course object: the fields the component reads, and the bag \<open>other\<close> of the
  attributes it only copies (credits, contact hours, description, course type,
  enrolment figures, priority). The sample courses carry neither \<^verbatim>\<open>courseId\<close> nor
  \<^verbatim>\<open>requiredQualification\<close>.\<close>

record course_fields =
  courseCode :: string
  courseName :: string
  department :: string
  semester :: string
  other :: attrs

record course_formData = course_fields +
  courseId :: string
  requiredQualification :: string

record course = course_fields +
  id :: int
  courseId :: "string option"
  requiredQualification :: "string option"

record course_state = component +
  selectedSemester :: string
  courses :: "course list"
  filteredCourses :: "course list"
  editingCourse :: "course option"
  selectedCourse :: "course option"
  formData :: course_formData

definition courseIdNumber :: "course \<Rightarrow> int" where
  "courseIdNumber c =
     (case course.courseId c of
        None \<Rightarrow> 0
      | Some s \<Rightarrow> (case match_digits s of None \<Rightarrow> 0 | Some m \<Rightarrow> parseInt m))"

definition generateCourseId :: "course list \<Rightarrow> string" where
  "generateCourseId cs =
     (let maxId = maxOrZero (map courseIdNumber cs)
      in ''COURSE'' @ padStart 3 (CHR ''0'') (String_of (maxId + 1)))"

definition sampleCourse ::
  "int \<Rightarrow> string \<Rightarrow> string \<Rightarrow> string \<Rightarrow> string \<Rightarrow> int \<Rightarrow> int \<Rightarrow> string \<Rightarrow> course" where
  "sampleCourse i code nm dept sem credits hours descr =
     \<lparr>courseCode = code, courseName = nm, department = dept, semester = sem,
      other = [(''credits'', Num credits), (''contactHours'', Num hours), (''description'', Str descr)],
      course.id = i, course.courseId = None, course.requiredQualification = None\<rparr>"

definition course_sampleData :: "course list" where
  "course_sampleData =
    [sampleCourse 1 ''CS101'' ''Introduction to Computer Science'' ''Computer Science''
       ''Semester 1'' 3 3 ''Fundamental concepts of computer science'',
     sampleCourse 2 ''CS201'' ''Data Structures'' ''Computer Science''
       ''Semester 2'' 4 4 ''Introduction to data structures and algorithms'',
     sampleCourse 3 ''MATH101'' ''Calculus I'' ''Mathematics''
       ''Semester 1'' 4 4 ''Differential and integral calculus'',
     sampleCourse 4 ''PHYS101'' ''Physics I'' ''Physics''
       ''Semester 1'' 4 4 ''Mechanics and thermodynamics'',
     sampleCourse 5 ''CS301'' ''Database Systems'' ''Computer Science''
       ''Semester 2'' 3 3 ''Database design and management'',
     sampleCourse 6 ''MATH201'' ''Linear Algebra'' ''Mathematics''
       ''Semester 2'' 3 3 ''Vector spaces and linear transformations'',
     sampleCourse 7 ''CS401'' ''Software Engineering'' ''Computer Science''
       ''Semester 1'' 3 3 ''Software development methodologies'',
     sampleCourse 8 ''CHEM101'' ''General Chemistry'' ''Chemistry''
       ''Semester 1'' 4 4 ''Fundamental principles of chemistry'']"


text \<open>The effect on \<^verbatim>\<open>[courses.length, editingCourse]\<close>.\<close>

definition autoGenerateCourseId :: "course_state \<Rightarrow> course_state" where
  "autoGenerateCourseId st =
     (if editingCourse st = None
      then st\<lparr>formData := (formData st)\<lparr>course_formData.courseId := generateCourseId (courses st)\<rparr>\<rparr>
      else st)"


definition saveCoursesToStorage ::
  "(course list \<Rightarrow> string) \<Rightarrow> course list \<Rightarrow> course_state \<Rightarrow> course_state" where
  "saveCoursesToStorage JSON_stringify coursesList st =
     setItem ''courses'' (JSON_stringify coursesList) st"

definition course_requiredMissing :: "course_formData \<Rightarrow> bool" where
  "course_requiredMissing fd =
     (trim (courseCode fd) = [] \<or> trim (courseName fd) = []
      \<or> trim (course_formData.requiredQualification fd) = [])"

definition course_defaultOther :: attrs where
  "course_defaultOther =
     [(''credits'', Num 3), (''contactHoursWeek'', Num 3), (''canCombineSections'', Bool False),
      (''courseType'', Str ''lecture''), (''expectedEnrollment'', Num 50),
      (''maxStudentsSection'', Num 50), (''priority'', Num 5)]"

definition course_resetForm :: "course list \<Rightarrow> course_formData" where
  "course_resetForm cs =
     \<lparr>courseCode = [], courseName = [], department = ''Faculty of Computing'',
      semester = ''Semester 1'', other = course_defaultOther,
      course_formData.courseId = generateCourseId cs,
      course_formData.requiredQualification = []\<rparr>"

text \<open>\<^verbatim>\<open>{ id: maxId + 1, ...formData, courseId: formData.courseId || generateCourseId() }\<close>\<close>

definition newCourse :: "course list \<Rightarrow> course_formData \<Rightarrow> course" where
  "newCourse cs fd =
     (let maxId = maxOrZero (map course.id cs)
      in \<lparr>courseCode = courseCode fd, courseName = courseName fd, department = department fd,
          semester = semester fd, other = other fd,
          course.id = maxId + 1,
          course.courseId = Some (if course_formData.courseId fd \<noteq> []
                                  then course_formData.courseId fd else generateCourseId cs),
          course.requiredQualification = Some (course_formData.requiredQualification fd)\<rparr>)"

definition handleCourseAdded :: "(course list \<Rightarrow> string) \<Rightarrow> course_state \<Rightarrow> course_state" where
  "handleCourseAdded JSON_stringify st =
     (if course_requiredMissing (formData st) then setPopup requiredFieldsPopup st
      else
        let updatedCourses = courses st @ [newCourse (courses st) (formData st)];
            s1 = st\<lparr>courses := updatedCourses\<rparr>;
            s2 = s1\<lparr>filteredCourses := updatedCourses\<rparr>;
            s3 = saveCoursesToStorage JSON_stringify updatedCourses s2;
            s4 = s3\<lparr>activeTab := ''view-courses''\<rparr>;
            s5 = s4\<lparr>formData := course_resetForm (courses st)\<rparr>
        in setPopup \<lparr>show = True, message = ''Course added successfully!'', type = ''success''\<rparr> s5)"



definition handleDeleteCourse ::
  "(course list \<Rightarrow> string) \<Rightarrow> bool \<Rightarrow> int \<Rightarrow> course_state \<Rightarrow> course_state" where
  "handleDeleteCourse JSON_stringify confirm i st =
     (if \<not> isAdministrator st
      then setPopup \<lparr>show = True, message = ''You do not have permission to delete courses.'',
                      type = ''error''\<rparr> st
      else if confirm then
        let updatedList = filter (\<lambda>c. course.id c \<noteq> i) (courses st);
            s1 = st\<lparr>courses := updatedList\<rparr>;
            s2 = s1\<lparr>filteredCourses := updatedList\<rparr>;
            s3 = saveCoursesToStorage JSON_stringify updatedList s2;
            s4 = (case selectedCourse st of
                    Some sel \<Rightarrow> if course.id sel = i then s3\<lparr>selectedCourse := None\<rparr> else s3
                  | None \<Rightarrow> s3)
        in setPopup \<lparr>show = True, message = ''Course deleted successfully!'', type = ''delete''\<rparr> s4
      else st)"

text \<open>Truthiness of a copied attribute, and \<^verbatim>\<open>course.k1 || course.k2 || dflt\<close>.\<close>

definition truthy :: "attr \<Rightarrow> bool" where
  "truthy a = (case a of Num n \<Rightarrow> n \<noteq> 0 | Str s \<Rightarrow> s \<noteq> [] | Bool b \<Rightarrow> b)"

fun firstTruthy :: "string list \<Rightarrow> attr \<Rightarrow> attrs \<Rightarrow> attr" where
  "firstTruthy [] dflt kvs = dflt"
| "firstTruthy (k # ks) dflt kvs =
     (case map_of kvs k of
        Some a \<Rightarrow> if truthy a then a else firstTruthy ks dflt kvs
      | None \<Rightarrow> firstTruthy ks dflt kvs)"

definition course_formOf :: "course list \<Rightarrow> course \<Rightarrow> course_formData" where
  "course_formOf cs c =
     \<lparr>courseCode = courseCode c, courseName = courseName c,
      department = (if department c \<noteq> [] then department c else ''Faculty of Computing''),
      semester = (if semester c \<noteq> [] then semester c else ''Semester 1''),
      other =
        [(''credits'', firstTruthy [''credits''] (Num 3) (other c)),
         (''contactHoursWeek'', firstTruthy [''contactHoursWeek'', ''contactHours''] (Num 3) (other c)),
         (''canCombineSections'', firstTruthy [''canCombineSections''] (Bool False) (other c)),
         (''courseType'', firstTruthy [''courseType''] (Str ''lecture'') (other c)),
         (''expectedEnrollment'', firstTruthy [''expectedEnrollment''] (Num 50) (other c)),
         (''maxStudentsSection'', firstTruthy [''maxStudentsSection''] (Num 50) (other c)),
         (''priority'', firstTruthy [''priority''] (Num 5) (other c))],
      course_formData.courseId =
        (case course.courseId c of
           Some s \<Rightarrow> if s \<noteq> [] then s
                     else if courseCode c \<noteq> [] then courseCode c else generateCourseId cs
         | None \<Rightarrow> if courseCode c \<noteq> [] then courseCode c else generateCourseId cs),
      course_formData.requiredQualification =
        (case course.requiredQualification c of Some s \<Rightarrow> s | None \<Rightarrow> [])\<rparr>"

definition handleEditCourse :: "course \<Rightarrow> course_state \<Rightarrow> course_state" where
  "handleEditCourse c st =
     (if \<not> isAdministrator st
      then setPopup \<lparr>show = True, message = ''You do not have permission to edit courses.'',
                      type = ''error''\<rparr> st
      else st\<lparr>editingCourse := Some c, formData := course_formOf (courses st) c,
               activeTab := ''add-course''\<rparr>)"


text \<open>The form is rendered under \<^verbatim>\<open>activeTab === 'add-course' && isAdministrator\<close>.\<close>

definition course_formRendered :: "course_state \<Rightarrow> bool" where
  "course_formRendered st = (activeTab st = ''add-course'' \<and> isAdministrator st)"

section \<open>StaffManagement and AddStaffForm\<close>

text \<open>A staff object: the fields the component reads and the bag \<open>other\<close> of the attributes
  it only copies (position, role, qualifications, the hour figures, \<^verbatim>\<open>staffId\<close>). The
  type of \<open>id\<close> is a parameter: a member of the collection has an \<^typ>\<open>int\<close>, the object
  that AddStaffForm submits has an \<^typ>\<open>int option\<close>, \<open>None\<close> for \<^verbatim>\<open>undefined\<close>.\<close>

record person =
  name :: string
  email :: string
  department :: string
  other :: attrs

record staff_formData = person +
  profilePicture :: string

record 'i staff = person +
  id :: 'i
  profilePicture :: "string option"

record staff_state = component +
  currentUserEmail :: string
  selectedDepartment :: string
  searchQuery :: string
  staffMembers :: "int staff list"
  filteredStaff :: "int staff list"
  editingStaff :: "int staff option"
  selectedStaff :: "int staff option"
  formError :: "string option"
  formPopup :: popup

definition withId :: "int \<Rightarrow> 'i staff \<Rightarrow> int staff" where
  "withId n s =
     \<lparr>name = name s, email = email s, department = department s, other = other s,
      staff.id = n, staff.profilePicture = staff.profilePicture s\<rparr>"

text \<open>\<^verbatim>\<open>staffMembers.find(staff => currentUserEmail && staff.email.toLowerCase() ===
  currentUserEmail.toLowerCase()) || (isStaff && staffMembers.length > 0 ? staffMembers[0] : null)\<close>\<close>

definition currentUserProfile :: "staff_state \<Rightarrow> int staff option" where
  "currentUserProfile st =
     (case find (\<lambda>s. currentUserEmail st \<noteq> []
                      \<and> toLowerCase (email s) = toLowerCase (currentUserEmail st)) (staffMembers st) of
        Some s \<Rightarrow> Some s
      | None \<Rightarrow> (case staffMembers st of
                  s # _ \<Rightarrow> if isStaff st then Some s else None
                | [] \<Rightarrow> None))"

definition isOwnProfile :: "staff_state \<Rightarrow> bool" where
  "isOwnProfile st =
     (isStaff st \<and>
      (case (selectedStaff st, currentUserProfile st) of
         (Some sel, Some own) \<Rightarrow> staff.id sel = staff.id own
       | _ \<Rightarrow> False))"

definition sampleStaff ::
  "int \<Rightarrow> string \<Rightarrow> string \<Rightarrow> string \<Rightarrow> string \<Rightarrow> int \<Rightarrow> int \<Rightarrow> int \<Rightarrow> int staff" where
  "sampleStaff i nm mail dept pos teaching research totalHrs =
     \<lparr>name = nm, email = mail, department = dept,
      other = [(''position'', Str pos), (''teachingHours'', Num teaching),
               (''researchHours'', Num research), (''totalHours'', Num totalHrs)],
      staff.id = i, staff.profilePicture = None\<rparr>"

definition staff_sampleData :: "int staff list" where
  "staff_sampleData =
    [sampleStaff 1 ''Dr. John Smith'' ''john.smith@university.edu'' ''Computer Science''
       ''Professor'' 12 6 18,
     sampleStaff 2 ''Dr. Sarah Johnson'' ''sarah.johnson@university.edu'' ''Mathematics''
       ''Associate Professor'' 10 5 15,
     sampleStaff 3 ''Dr. Michael Williams'' ''michael.williams@university.edu'' ''Physics''
       ''Professor'' 15 5 20,
     sampleStaff 4 ''Dr. Emily Brown'' ''emily.brown@university.edu'' ''Computer Science''
       ''Assistant Professor'' 8 4 12,
     sampleStaff 5 ''Dr. David Davis'' ''david.davis@university.edu'' ''Mathematics''
       ''Associate Professor'' 11 5 16]"


text \<open>The effect on \<^verbatim>\<open>[isStaff, currentUserEmail, staffMembers.length]\<close>.\<close>

definition autoLoadStaffProfile :: "staff_state \<Rightarrow> staff_state" where
  "autoLoadStaffProfile st =
     (case staffMembers st of
        [] \<Rightarrow> st
      | first # _ \<Rightarrow>
          if isStaff st \<and> selectedStaff st = None then
            let userProfile =
                  (if currentUserEmail st \<noteq> []
                   then find (\<lambda>s. toLowerCase (email s) = toLowerCase (currentUserEmail st))
                          (staffMembers st)
                   else None);
                profileToShow = (case userProfile of Some p \<Rightarrow> p | None \<Rightarrow> first)
            in st\<lparr>selectedStaff := Some profileToShow\<rparr>
          else st)"


definition saveStaffToStorage ::
  "(int staff list \<Rightarrow> string) \<Rightarrow> int staff list \<Rightarrow> staff_state \<Rightarrow> staff_state" where
  "saveStaffToStorage JSON_stringify staffList st =
     setItem ''staffMembers'' (JSON_stringify staffList) st"

text \<open>\<^verbatim>\<open>handleStaffAdded(newStaff, action)\<close>. \<^verbatim>\<open>!newStaff.id\<close> holds for \<^verbatim>\<open>undefined\<close>
  and for \<open>0\<close>.\<close>

definition handleStaffAdded ::
  "(int staff list \<Rightarrow> string) \<Rightarrow> int option staff option \<Rightarrow> string option \<Rightarrow> staff_state
     \<Rightarrow> staff_state" where
  "handleStaffAdded JSON_stringify newStaff action st =
     (if action = Some ''cancel'' then st\<lparr>editingStaff := None\<rparr>
      else case newStaff of
        None \<Rightarrow> st
      | Some draft \<Rightarrow>
          let newStaff =
                (case staff.id draft of
                   Some n \<Rightarrow> if n \<noteq> 0 then withId n draft
                             else withId (maxOrZero (map staff.id (staffMembers st)) + 1) draft
                 | None \<Rightarrow> withId (maxOrZero (map staff.id (staffMembers st)) + 1) draft);
              updatedStaff = staffMembers st @ [newStaff];
              s1 = st\<lparr>staffMembers := updatedStaff\<rparr>;
              s2 = s1\<lparr>filteredStaff := updatedStaff\<rparr>;
              s3 = saveStaffToStorage JSON_stringify updatedStaff s2;
              s4 = s3\<lparr>activeTab := ''view-staff''\<rparr>
          in setPopup \<lparr>show = True, message = ''Staff member added successfully!'',
                        type = ''success''\<rparr> s4)"

text \<open>\<^verbatim>\<open>staffMembers.map(staff => staff.id === updatedStaff.id ? updatedStaff : staff)\<close>\<close>

definition handleStaffUpdated ::
  "(int staff list \<Rightarrow> string) \<Rightarrow> int option staff \<Rightarrow> staff_state \<Rightarrow> staff_state" where
  "handleStaffUpdated JSON_stringify updatedStaff st =
     (let updatedList =
            map (\<lambda>s. if Some (staff.id s) = staff.id updatedStaff
                      then withId (staff.id s) updatedStaff else s) (staffMembers st);
          s1 = st\<lparr>staffMembers := updatedList\<rparr>;
          s2 = s1\<lparr>filteredStaff := updatedList\<rparr>;
          s3 = saveStaffToStorage JSON_stringify updatedList s2;
          s4 = s3\<lparr>editingStaff := None\<rparr>;
          s5 = s4\<lparr>activeTab := ''view-staff''\<rparr>
      in setPopup \<lparr>show = True, message = ''Staff record updated'', type = ''success''\<rparr> s5)"

definition handleDeleteStaff ::
  "(int staff list \<Rightarrow> string) \<Rightarrow> bool \<Rightarrow> int \<Rightarrow> staff_state \<Rightarrow> staff_state" where
  "handleDeleteStaff JSON_stringify confirm i st =
     (if \<not> isAdministrator st
      then setPopup \<lparr>show = True, message = ''You do not have permission to delete staff members.'',
                      type = ''error''\<rparr> st
      else if confirm then
        let updatedList = filter (\<lambda>s. staff.id s \<noteq> i) (staffMembers st);
            s1 = st\<lparr>staffMembers := updatedList\<rparr>;
            s2 = s1\<lparr>filteredStaff := updatedList\<rparr>;
            s3 = saveStaffToStorage JSON_stringify updatedList s2;
            s4 = (case selectedStaff st of
                    Some sel \<Rightarrow> if staff.id sel = i then s3\<lparr>selectedStaff := None\<rparr> else s3
                  | None \<Rightarrow> s3)
        in setPopup \<lparr>show = True, message = ''Record deleted'', type = ''delete''\<rparr> s4
      else st)"

definition handleEditStaff :: "int staff \<Rightarrow> staff_state \<Rightarrow> staff_state" where
  "handleEditStaff s st =
     (if \<not> isAdministrator st
      then setPopup \<lparr>show = True, message = ''You do not have permission to edit staff members.'',
                      type = ''error''\<rparr> st
      else st\<lparr>editingStaff := Some s, activeTab := ''add-staff''\<rparr>)"

definition handleViewStaff :: "int staff \<Rightarrow> staff_state \<Rightarrow> staff_state" where
  "handleViewStaff s st = st\<lparr>selectedStaff := Some s, activeTab := ''staff-details''\<rparr>"

text \<open>The file chosen in the upload input: its media type and its size in bytes.\<close>

record upload_file =
  file_type :: string
  file_size :: nat

text \<open>\<^verbatim>\<open>handleProfilePictureUpload\<close> up to \<^verbatim>\<open>reader.readAsDataURL(file)\<close>: the component
  after the checks, and whether the read was started.\<close>

definition handleProfilePictureUpload :: "upload_file option \<Rightarrow> staff_state \<Rightarrow> staff_state \<times> bool" where
  "handleProfilePictureUpload file st =
     (case (file, selectedStaff st) of
        (Some f, Some sel) \<Rightarrow>
          if isStaff st \<and> (case currentUserProfile st of
                             Some own \<Rightarrow> staff.id sel \<noteq> staff.id own | None \<Rightarrow> False)
          then (setPopup \<lparr>show = True, message = ''You can only upload your own profile picture.'',
                          type = ''error''\<rparr> st, False)
          else if \<not> startsWith (file_type f) ''image/''
          then (setPopup \<lparr>show = True, message = ''Please select a valid image file.'',
                          type = ''error''\<rparr> st, False)
          else if file_size f > 5 * 1024 * 1024
          then (setPopup \<lparr>show = True, message = ''Image size should be less than 5MB.'',
                          type = ''error''\<rparr> st, False)
          else (st, True)
      | _ \<Rightarrow> (st, False))"


text \<open>AddStaffForm: \<^verbatim>\<open>submitData\<close> is the form's data with
  \<^verbatim>\<open>id: editingStaff ? editingStaff.id : undefined\<close>; the hour figures that the form
  derives are among the copied attributes.\<close>

definition submitData :: "staff_formData \<Rightarrow> int staff option \<Rightarrow> int option staff" where
  "submitData fd editing =
     \<lparr>name = name fd, email = email fd, department = department fd, other = other fd,
      staff.id = (case editing of Some e \<Rightarrow> Some (staff.id e) | None \<Rightarrow> None),
      staff.profilePicture = Some (staff_formData.profilePicture fd)\<rparr>"


text \<open>AddStaffForm is rendered under \<^verbatim>\<open>activeTab === 'add-staff' && isAdministrator\<close>.\<close>

definition staff_formRendered :: "staff_state \<Rightarrow> bool" where
  "staff_formRendered st = (activeTab st = ''add-staff'' \<and> isAdministrator st)"

section \<open>The components as mounted\<close>

text \<open>The \<^verbatim>\<open>useState\<close> defaults of each component, for a given \<^verbatim>\<open>userRole\<close> prop and a
  given content of the browser's storage.\<close>

definition hiddenPopup :: popup where
  "hiddenPopup = \<lparr>show = False, message = [], type = ''success''\<rparr>"

definition task_mounted :: "string \<Rightarrow> (string \<rightharpoonup> string) \<Rightarrow> task_state" where
  "task_mounted role storage =
     \<lparr>userRole = role, activeTab = ''view-tasks'', popup = hiddenPopup,
      localStorage = storage, trace = [],
      tasks = [], filteredTasks = [], editingTask = None, selectedTask = None,
      task_state.formData =
        \<lparr>taskName = [], description = [], category = ''general'', hoursNeeded = [],
         noOfStaff = [], staffQualificationCriteria = [], task_fields.department = [],
         programme = [], module = [], task_formData.taskId = ''T001''\<rparr>\<rparr>"

definition course_mounted :: "string \<Rightarrow> (string \<rightharpoonup> string) \<Rightarrow> course_state" where
  "course_mounted role storage =
     \<lparr>userRole = role, activeTab = ''view-courses'', popup = hiddenPopup,
      localStorage = storage, trace = [],
      selectedSemester = ''All'', courses = [], filteredCourses = [],
      editingCourse = None, selectedCourse = None,
      course_state.formData =
        \<lparr>courseCode = [], courseName = [], course_fields.department = ''Faculty of Computing'',
         semester = ''Semester 1'', course_fields.other = course_defaultOther,
         course_formData.courseId = ''COURSE001'',
         course_formData.requiredQualification = []\<rparr>\<rparr>"

definition staff_mounted :: "string \<Rightarrow> string \<Rightarrow> (string \<rightharpoonup> string) \<Rightarrow> staff_state" where
  "staff_mounted role mail storage =
     \<lparr>userRole = role, activeTab = ''view-staff'', popup = hiddenPopup,
      localStorage = storage, trace = [],
      currentUserEmail = mail, selectedDepartment = ''All'', searchQuery = [],
      staffMembers = [], filteredStaff = [], editingStaff = None, selectedStaff = None,
      formError = None, formPopup = hiddenPopup\<rparr>"

section \<open>The specification's operations\<close>

text \<open>\<^verbatim>\<open>nextId(records)\<close>: the maximum of the ids plus one, or 1 for no record.\<close>

definition spec_nextId :: "int list \<Rightarrow> int" where
  "spec_nextId ids = (if ids = [] then 1 else Max (set ids) + 1)"






text \<open>Within the effects \<open>es\<close> of one handler run: every notification that is not of
  kind \<^verbatim>\<open>error\<close> comes after a write of the text \<open>v\<close> under the key \<open>k\<close>.\<close>

fun writeThenNotify :: "string \<Rightarrow> string \<Rightarrow> bool \<Rightarrow> effect list \<Rightarrow> bool" where
  "writeThenNotify k v written [] = True"
| "writeThenNotify k v written (SetItem k' v' # es) =
     writeThenNotify k v (written \<or> (k' = k \<and> v' = v)) es"
| "writeThenNotify k v written (SetPopup p # es) =
     ((type p = ''error'' \<or> written) \<and> writeThenNotify k v written es)"

section \<open>Components used as examples\<close>

text \<open>Collections with the ids 1, 3 and 5 (Scenario B), a filled form for each module, and
  each component holding them, for a given role.\<close>

definition gapTasks :: "task list" where
  "gapTasks = map2 (\<lambda>t i. t\<lparr>task.id := i\<rparr>) task_sampleData [1, 3, 5]"

definition filledTaskForm :: task_formData where
  "filledTaskForm =
     \<lparr>taskName = ''Mark scripts'', description = ''Mark the final scripts'',
      category = ''assessment'', hoursNeeded = ''10'', noOfStaff = ''1'',
      staffQualificationCriteria = ''Lecturer'', task_fields.department = ''Physics'',
      programme = ''PhD'', module = ''Module 4'', task_formData.taskId = ''T004''\<rparr>"

definition exampleTasks :: "string \<Rightarrow> task_state" where
  "exampleTasks role =
     (task_mounted role Map.empty)
       \<lparr>tasks := gapTasks, filteredTasks := gapTasks, task_state.formData := filledTaskForm\<rparr>"

definition gapCourses :: "course list" where
  "gapCourses = map2 (\<lambda>c i. c\<lparr>course.id := i\<rparr>) (take 3 course_sampleData) [1, 3, 5]"

definition filledCourseForm :: course_formData where
  "filledCourseForm =
     \<lparr>courseCode = ''CS501'', courseName = ''Compilers'',
      course_fields.department = ''Computer Science'', semester = ''Semester 2'',
      course_fields.other = course_defaultOther, course_formData.courseId = ''COURSE001'',
      course_formData.requiredQualification = ''CS201''\<rparr>"

definition exampleCourses :: "string \<Rightarrow> course_state" where
  "exampleCourses role =
     (course_mounted role Map.empty)
       \<lparr>courses := gapCourses, filteredCourses := gapCourses,
        course_state.formData := filledCourseForm\<rparr>"

definition gapStaff :: "int staff list" where
  "gapStaff = map2 (\<lambda>s i. s\<lparr>staff.id := i\<rparr>) (take 3 staff_sampleData) [1, 3, 5]"

definition filledStaffForm :: staff_formData where
  "filledStaffForm =
     \<lparr>name = ''Dr. Ada Perera'', email = ''ada.perera@university.edu'', department = ''Physics'',
      other = [(''staffId'', Str ''STAFF001''), (''role'', Str ''professor'')],
      staff_formData.profilePicture = []\<rparr>"

definition exampleStaff :: "string \<Rightarrow> staff_state" where
  "exampleStaff role =
     (staff_mounted role [] Map.empty)\<lparr>staffMembers := gapStaff, filteredStaff := gapStaff\<rparr>"

text \<open>The id that \<^verbatim>\<open>handleStaffAdded\<close> leaves on the submitted object, given the ids of the
  collection.\<close>

definition staffIdOnCreate :: "int list \<Rightarrow> int option \<Rightarrow> int" where
  "staffIdOnCreate ids i =
     (case i of Some n \<Rightarrow> if n \<noteq> 0 then n else spec_nextId ids | None \<Rightarrow> spec_nextId ids)"

section \<open>Lemmas\<close>

subsection \<open>Numbers\<close>

lemma Math_max_Max: "Math_max x xs = Max (set (x # xs))"
  unfolding Math_max_def by (rule Max.set_eq_fold [symmetric])

lemma maxOrZero_Max: "maxOrZero ns = (if ns = [] then 0 else Max (set ns))"
  by (cases ns) (simp_all add: maxOrZero_def Math_max_Max del: set_simps)

lemma maxOrZero_nextId: "maxOrZero ns + 1 = spec_nextId ns"
  by (simp add: maxOrZero_Max spec_nextId_def)


subsection \<open>What the create handlers leave in the collection\<close>

lemma tasks_handleTaskAdded:
  "\<not> task_requiredMissing (task_state.formData st) \<Longrightarrow>
   tasks (handleTaskAdded js st) = tasks st @ [newTask (tasks st) (task_state.formData st)]"
  by (simp add: handleTaskAdded_def Let_def setPopup_def saveTasksToStorage_def setItem_def)


lemma courses_handleCourseAdded:
  "\<not> course_requiredMissing (course_state.formData st) \<Longrightarrow>
   courses (handleCourseAdded js st) = courses st @ [newCourse (courses st) (course_state.formData st)]"
  by (simp add: handleCourseAdded_def Let_def setPopup_def saveCoursesToStorage_def setItem_def)


lemma staffMembers_handleStaffAdded:
  "action \<noteq> Some ''cancel'' \<Longrightarrow>
   staffMembers (handleStaffAdded js (Some d) action st) =
     staffMembers st @ [withId (staffIdOnCreate (map staff.id (staffMembers st)) (staff.id d)) d]"
  by (simp add: handleStaffAdded_def Let_def setPopup_def saveStaffToStorage_def setItem_def
      maxOrZero_nextId staffIdOnCreate_def split: option.splits)

lemma id_withId: "staff.id (withId n d) = n"
  by (simp add: withId_def)


subsection \<open>Examples\<close>

lemma ids_gapTasks: "map task.id gapTasks = [1, 3, 5]"
  by (simp add: gapTasks_def task_sampleData_def)

lemma ids_gapCourses: "map course.id gapCourses = [1, 3, 5]"
  by (simp add: gapCourses_def course_sampleData_def sampleCourse_def)

lemma ids_gapStaff: "map staff.id gapStaff = [1, 3, 5]"
  by (simp add: gapStaff_def staff_sampleData_def sampleStaff_def)

lemma filledTaskForm_valid: "\<not> task_requiredMissing filledTaskForm"
  by (simp add: task_requiredMissing_def filledTaskForm_def trim_def isWhitespace_def)

lemma filledCourseForm_valid: "\<not> course_requiredMissing filledCourseForm"
  by (simp add: course_requiredMissing_def filledCourseForm_def trim_def isWhitespace_def)


lemma exampleTasks_simps:
  "tasks (exampleTasks r) = gapTasks" "task_state.formData (exampleTasks r) = filledTaskForm"
  "userRole (exampleTasks r) = r" "selectedTask (exampleTasks r) = None"
  "trace (exampleTasks r) = []" "activeTab (exampleTasks r) = ''view-tasks''"
  "editingTask (exampleTasks r) = None"
  by (simp_all add: exampleTasks_def task_mounted_def)

lemma exampleCourses_simps:
  "courses (exampleCourses r) = gapCourses" "course_state.formData (exampleCourses r) = filledCourseForm"
  "userRole (exampleCourses r) = r" "selectedCourse (exampleCourses r) = None"
  "trace (exampleCourses r) = []" "activeTab (exampleCourses r) = ''view-courses''"
  "editingCourse (exampleCourses r) = None" "selectedSemester (exampleCourses r) = ''All''"
  by (simp_all add: exampleCourses_def course_mounted_def)

lemma exampleStaff_simps:
  "staffMembers (exampleStaff r) = gapStaff" "editingStaff (exampleStaff r) = None"
  "userRole (exampleStaff r) = r" "selectedStaff (exampleStaff r) = None"
  "trace (exampleStaff r) = []" "activeTab (exampleStaff r) = ''view-staff''"
  "selectedDepartment (exampleStaff r) = ''All''" "searchQuery (exampleStaff r) = []"
  by (simp_all add: exampleStaff_def staff_mounted_def)

subsection \<open>The delete handlers, field by field\<close>

lemmas handler_defs =
  Let_def setPopup_def setItem_def saveTasksToStorage_def saveCoursesToStorage_def
  saveStaffToStorage_def requiredFieldsPopup_def

lemma handleDeleteTask_denied:
  "\<not> isAdministrator st \<Longrightarrow>
   handleDeleteTask js c i st =
     setPopup \<lparr>show = True, message = ''You do not have permission to delete tasks.'',
               type = ''error''\<rparr> st"
  by (simp add: handleDeleteTask_def)

lemma handleDeleteCourse_denied:
  "\<not> isAdministrator st \<Longrightarrow>
   handleDeleteCourse js c i st =
     setPopup \<lparr>show = True, message = ''You do not have permission to delete courses.'',
               type = ''error''\<rparr> st"
  by (simp add: handleDeleteCourse_def)

lemma handleDeleteStaff_denied:
  "\<not> isAdministrator st \<Longrightarrow>
   handleDeleteStaff js c i st =
     setPopup \<lparr>show = True, message = ''You do not have permission to delete staff members.'',
               type = ''error''\<rparr> st"
  by (simp add: handleDeleteStaff_def)

lemma tasks_handleDeleteTask:
  "isAdministrator st \<Longrightarrow>
   tasks (handleDeleteTask js True i st) = filter (\<lambda>t. task.id t \<noteq> i) (tasks st)"
  by (simp add: handleDeleteTask_def handler_defs split: option.splits)

lemma selectedTask_handleDeleteTask:
  "isAdministrator st \<Longrightarrow>
   selectedTask (handleDeleteTask js True i st) =
     (case selectedTask st of
        Some sel \<Rightarrow> if task.id sel = i then None else Some sel
      | None \<Rightarrow> None)"
  by (simp add: handleDeleteTask_def handler_defs split: option.splits)

lemma trace_handleDeleteTask:
  "isAdministrator st \<Longrightarrow>
   trace (handleDeleteTask js True i st) =
     trace st @ [SetItem ''tasks'' (js (filter (\<lambda>t. task.id t \<noteq> i) (tasks st))),
                 SetPopup \<lparr>show = True, message = ''Task deleted successfully!'', type = ''delete''\<rparr>]"
  by (simp add: handleDeleteTask_def handler_defs split: option.splits)

lemma localStorage_handleDeleteTask:
  "isAdministrator st \<Longrightarrow>
   localStorage (handleDeleteTask js True i st) =
     (localStorage st)(''tasks'' \<mapsto> js (filter (\<lambda>t. task.id t \<noteq> i) (tasks st)))"
  by (simp add: handleDeleteTask_def handler_defs split: option.splits)

lemma popup_handleDeleteTask:
  "isAdministrator st \<Longrightarrow>
   popup (handleDeleteTask js True i st) =
     \<lparr>show = True, message = ''Task deleted successfully!'', type = ''delete''\<rparr>"
  by (simp add: handleDeleteTask_def handler_defs split: option.splits)

lemma courses_handleDeleteCourse:
  "isAdministrator st \<Longrightarrow>
   courses (handleDeleteCourse js True i st) = filter (\<lambda>c. course.id c \<noteq> i) (courses st)"
  by (simp add: handleDeleteCourse_def handler_defs split: option.splits)

lemma selectedCourse_handleDeleteCourse:
  "isAdministrator st \<Longrightarrow>
   selectedCourse (handleDeleteCourse js True i st) =
     (case selectedCourse st of
        Some sel \<Rightarrow> if course.id sel = i then None else Some sel
      | None \<Rightarrow> None)"
  by (simp add: handleDeleteCourse_def handler_defs split: option.splits)

lemma trace_handleDeleteCourse:
  "isAdministrator st \<Longrightarrow>
   trace (handleDeleteCourse js True i st) =
     trace st @ [SetItem ''courses'' (js (filter (\<lambda>c. course.id c \<noteq> i) (courses st))),
                 SetPopup \<lparr>show = True, message = ''Course deleted successfully!'', type = ''delete''\<rparr>]"
  by (simp add: handleDeleteCourse_def handler_defs split: option.splits)

lemma localStorage_handleDeleteCourse:
  "isAdministrator st \<Longrightarrow>
   localStorage (handleDeleteCourse js True i st) =
     (localStorage st)(''courses'' \<mapsto> js (filter (\<lambda>c. course.id c \<noteq> i) (courses st)))"
  by (simp add: handleDeleteCourse_def handler_defs split: option.splits)

lemma popup_handleDeleteCourse:
  "isAdministrator st \<Longrightarrow>
   popup (handleDeleteCourse js True i st) =
     \<lparr>show = True, message = ''Course deleted successfully!'', type = ''delete''\<rparr>"
  by (simp add: handleDeleteCourse_def handler_defs split: option.splits)

lemma staffMembers_handleDeleteStaff:
  "isAdministrator st \<Longrightarrow>
   staffMembers (handleDeleteStaff js True i st) = filter (\<lambda>s. staff.id s \<noteq> i) (staffMembers st)"
  by (simp add: handleDeleteStaff_def handler_defs split: option.splits)

lemma selectedStaff_handleDeleteStaff:
  "isAdministrator st \<Longrightarrow>
   selectedStaff (handleDeleteStaff js True i st) =
     (case selectedStaff st of
        Some sel \<Rightarrow> if staff.id sel = i then None else Some sel
      | None \<Rightarrow> None)"
  by (simp add: handleDeleteStaff_def handler_defs split: option.splits)

lemma trace_handleDeleteStaff:
  "isAdministrator st \<Longrightarrow>
   trace (handleDeleteStaff js True i st) =
     trace st @ [SetItem ''staffMembers'' (js (filter (\<lambda>s. staff.id s \<noteq> i) (staffMembers st))),
                 SetPopup \<lparr>show = True, message = ''Record deleted'', type = ''delete''\<rparr>]"
  by (simp add: handleDeleteStaff_def handler_defs split: option.splits)

lemma localStorage_handleDeleteStaff:
  "isAdministrator st \<Longrightarrow>
   localStorage (handleDeleteStaff js True i st) =
     (localStorage st)(''staffMembers'' \<mapsto> js (filter (\<lambda>s. staff.id s \<noteq> i) (staffMembers st)))"
  by (simp add: handleDeleteStaff_def handler_defs split: option.splits)

lemma popup_handleDeleteStaff:
  "isAdministrator st \<Longrightarrow>
   popup (handleDeleteStaff js True i st) =
     \<lparr>show = True, message = ''Record deleted'', type = ''delete''\<rparr>"
  by (simp add: handleDeleteStaff_def handler_defs split: option.splits)

subsection \<open>Removing the records with one id from a list\<close>

lemma removed_once_length:
  assumes "length (filter (\<lambda>x. f x = i) xs) = Suc 0"
  shows "Suc (length (filter (\<lambda>x. f x \<noteq> i) xs)) = length xs"
  using sum_length_filter_compl [of "\<lambda>x. f x = i" xs] assms by simp

lemma removed_none:
  assumes "i \<notin> f ` set xs"
  shows "filter (\<lambda>x. f x \<noteq> i) xs = xs"
  using assms by (induction xs) auto


lemma isAdministrator_example:
  "isAdministrator (exampleTasks ''Administrator'')" "isAdministrator (exampleCourses ''Administrator'')"
  "isAdministrator (exampleStaff ''Administrator'')"
  "\<not> isAdministrator (exampleTasks ''Staff'')" "\<not> isAdministrator (exampleCourses ''Staff'')"
  "\<not> isAdministrator (exampleStaff ''Staff'')"
  by (simp_all add: isAdministrator_def exampleTasks_simps exampleCourses_simps exampleStaff_simps)

lemma isAdministrator_view:
  "isAdministrator (handleViewTask t ts) = isAdministrator ts"
  "isAdministrator (handleViewStaff s ss) = isAdministrator ss"
  by (simp_all add: isAdministrator_def handleViewTask_def handleViewStaff_def)

subsection \<open>The edit handlers and the form under a role that is not Administrator\<close>

lemma handleEditTask_denied:
  "\<not> isAdministrator st \<Longrightarrow>
   handleEditTask t st =
     setPopup \<lparr>show = True, message = ''You do not have permission to edit tasks.'',
               type = ''error''\<rparr> st"
  by (simp add: handleEditTask_def)

lemma handleEditCourse_denied:
  "\<not> isAdministrator st \<Longrightarrow>
   handleEditCourse c st =
     setPopup \<lparr>show = True, message = ''You do not have permission to edit courses.'',
               type = ''error''\<rparr> st"
  by (simp add: handleEditCourse_def)

lemma handleEditStaff_denied:
  "\<not> isAdministrator st \<Longrightarrow>
   handleEditStaff s st =
     setPopup \<lparr>show = True, message = ''You do not have permission to edit staff members.'',
               type = ''error''\<rparr> st"
  by (simp add: handleEditStaff_def)

lemma setPopup_frame:
  "tasks (setPopup p ts) = tasks ts" "courses (setPopup p cs) = courses cs"
  "staffMembers (setPopup p ss) = staffMembers ss"
  "localStorage (setPopup p st) = localStorage st"
  "trace (setPopup p st) = trace st @ [SetPopup p]"
  "popup (setPopup p st) = p"
  by (simp_all add: setPopup_def)

subsection \<open>Reading the store\<close>



subsection \<open>Strings\<close>








subsection \<open>The filter effects\<close>







subsection \<open>Digits\<close>







lemma padStart_long: "w \<le> length s \<Longrightarrow> padStart w c s = s"
  by (simp add: padStart_def)

subsection \<open>The secondary ids\<close>






subsection \<open>The effects of one handler run\<close>



lemma handleTaskUpdated_returns:
  "editingTask st \<noteq> None \<or> tasks st = [] \<or> task_requiredMissing (task_state.formData st) \<Longrightarrow>
   \<exists>st'. handleTaskUpdated js st = Inr st'"
  by (auto simp add: handleTaskUpdated_def Let_def)

lemma task_handleSubmit_returns: "\<exists>st'. task_handleSubmit js st = Inr st'"
  by (simp add: task_handleSubmit_def handleTaskUpdated_returns)













lemma effects_handleProfilePictureUpload:
  "\<exists>es. trace (fst (handleProfilePictureUpload file st)) = trace st @ es
     \<and> writeThenNotify ''staffMembers''
          (js (staffMembers (fst (handleProfilePictureUpload file st)))) False es
     \<and> staffMembers (fst (handleProfilePictureUpload file st)) = staffMembers st
     \<and> localStorage (fst (handleProfilePictureUpload file st)) = localStorage st"
  by (simp add: handleProfilePictureUpload_def handler_defs split: option.splits)

section \<open>The primary id on create\<close>



section \<open>What a valid create does to the collection\<close>



section \<open>The staff create handler and a submitted id\<close>

text \<open>
  C9. \<^verbatim>\<open>handleStaffAdded\<close> assigns the maximum id plus one only when the submitted
  object's id is absent or falsy (\<^verbatim>\<open>undefined\<close> or 0). An object that carries another id is
  appended with that id, with no check against the collection: when the collection
  already holds the id, the ids are no longer distinct. AddStaffForm submits
  \<^verbatim>\<open>undefined\<close> for a new staff member and the id of the staff member in edit
  otherwise.
\<close>

theorem handleStaffAdded_keeps_truthy_id:
  assumes "action \<noteq> Some ''cancel''"
  shows "(staff.id d = None \<or> staff.id d = Some 0 \<longrightarrow>
           staffMembers (handleStaffAdded js (Some d) action st)
             = staffMembers st @ [withId (spec_nextId (map staff.id (staffMembers st))) d])
    \<and> (\<forall>n. staff.id d = Some n \<and> n \<noteq> 0 \<longrightarrow>
           staffMembers (handleStaffAdded js (Some d) action st) = staffMembers st @ [withId n d]
         \<and> (n \<in> staff.id ` set (staffMembers st) \<longrightarrow>
              \<not> distinct (map staff.id (staffMembers (handleStaffAdded js (Some d) action st)))))
    \<and> staff.id (submitData fd None) = None
    \<and> staff.id (submitData fd (Some e)) = Some (staff.id e)"
  using assms
  by (auto simp add: staffMembers_handleStaffAdded staffIdOnCreate_def id_withId submitData_def)

theorem handleStaffAdded_keeps_truthy_id_witness:
  "\<forall>js. map staff.id (staffMembers (handleStaffAdded js
            (Some ((submitData filledStaffForm None)\<lparr>staff.id := Some 3\<rparr>)) None
            (exampleStaff ''Administrator''))) = [1, 3, 5, 3]
     \<and> \<not> distinct (map staff.id (staffMembers (handleStaffAdded js
            (Some ((submitData filledStaffForm None)\<lparr>staff.id := Some 3\<rparr>)) None
            (exampleStaff ''Administrator''))))
     \<and> map staff.id (staffMembers (handleStaffAdded js
            (Some ((submitData filledStaffForm None)\<lparr>staff.id := Some 0\<rparr>)) None
            (exampleStaff ''Administrator''))) = [1, 3, 5, 6]"
proof (intro allI)
  fix js :: "int staff list \<Rightarrow> string"
  have a: "None \<noteq> Some ''cancel''"
    by simp
  show "map staff.id (staffMembers (handleStaffAdded js
            (Some ((submitData filledStaffForm None)\<lparr>staff.id := Some 3\<rparr>)) None
            (exampleStaff ''Administrator''))) = [1, 3, 5, 3]
     \<and> \<not> distinct (map staff.id (staffMembers (handleStaffAdded js
            (Some ((submitData filledStaffForm None)\<lparr>staff.id := Some 3\<rparr>)) None
            (exampleStaff ''Administrator''))))
     \<and> map staff.id (staffMembers (handleStaffAdded js
            (Some ((submitData filledStaffForm None)\<lparr>staff.id := Some 0\<rparr>)) None
            (exampleStaff ''Administrator''))) = [1, 3, 5, 6]"
    using handleStaffAdded_keeps_truthy_id [OF a,
        of "(submitData filledStaffForm None)\<lparr>staff.id := Some 3\<rparr>" js
          "exampleStaff ''Administrator''"]
      handleStaffAdded_keeps_truthy_id [OF a,
        of "(submitData filledStaffForm None)\<lparr>staff.id := Some 0\<rparr>" js
          "exampleStaff ''Administrator''"]
    by (simp add: exampleStaff_simps ids_gapStaff id_withId spec_nextId_def)
qed

section \<open>Delete\<close>

text \<open>
  C5. A delete that an administrator confirms leaves exactly the records whose id differs
  from the deleted one: the collection of after is the collection of before filtered by
  that test, so each remaining record is the record of before, in the order of before;
  when the id occurs exactly once, exactly one record is gone. A Detail selection that
  referred to the deleted id is cleared, any other selection is kept.
\<close>

theorem delete_removes_exactly_that_id:
  assumes "isAdministrator ts" and "isAdministrator cs" and "isAdministrator ss"
  shows "tasks (handleDeleteTask jt True i ts) = filter (\<lambda>t. task.id t \<noteq> i) (tasks ts)
    \<and> set (tasks (handleDeleteTask jt True i ts)) = {t \<in> set (tasks ts). task.id t \<noteq> i}
    \<and> subseq (tasks (handleDeleteTask jt True i ts)) (tasks ts)
    \<and> (length (filter (\<lambda>t. task.id t = i) (tasks ts)) = 1 \<longrightarrow>
          length (tasks (handleDeleteTask jt True i ts)) + 1 = length (tasks ts))
    \<and> selectedTask (handleDeleteTask jt True i ts) =
          (case selectedTask ts of
             Some sel \<Rightarrow> if task.id sel = i then None else Some sel | None \<Rightarrow> None)
    \<and> courses (handleDeleteCourse jc True j cs) = filter (\<lambda>c. course.id c \<noteq> j) (courses cs)
    \<and> set (courses (handleDeleteCourse jc True j cs)) = {c \<in> set (courses cs). course.id c \<noteq> j}
    \<and> subseq (courses (handleDeleteCourse jc True j cs)) (courses cs)
    \<and> (length (filter (\<lambda>c. course.id c = j) (courses cs)) = 1 \<longrightarrow>
          length (courses (handleDeleteCourse jc True j cs)) + 1 = length (courses cs))
    \<and> selectedCourse (handleDeleteCourse jc True j cs) =
          (case selectedCourse cs of
             Some sel \<Rightarrow> if course.id sel = j then None else Some sel | None \<Rightarrow> None)
    \<and> staffMembers (handleDeleteStaff js True k ss) = filter (\<lambda>s. staff.id s \<noteq> k) (staffMembers ss)
    \<and> set (staffMembers (handleDeleteStaff js True k ss)) = {s \<in> set (staffMembers ss). staff.id s \<noteq> k}
    \<and> subseq (staffMembers (handleDeleteStaff js True k ss)) (staffMembers ss)
    \<and> (length (filter (\<lambda>s. staff.id s = k) (staffMembers ss)) = 1 \<longrightarrow>
          length (staffMembers (handleDeleteStaff js True k ss)) + 1 = length (staffMembers ss))
    \<and> selectedStaff (handleDeleteStaff js True k ss) =
          (case selectedStaff ss of
             Some sel \<Rightarrow> if staff.id sel = k then None else Some sel | None \<Rightarrow> None)"
proof -
  have t: "tasks (handleDeleteTask jt True i ts) = filter (\<lambda>t. task.id t \<noteq> i) (tasks ts)"
    using assms(1) by (rule tasks_handleDeleteTask)
  have c: "courses (handleDeleteCourse jc True j cs) = filter (\<lambda>c. course.id c \<noteq> j) (courses cs)"
    using assms(2) by (rule courses_handleDeleteCourse)
  have s: "staffMembers (handleDeleteStaff js True k ss) = filter (\<lambda>s. staff.id s \<noteq> k) (staffMembers ss)"
    using assms(3) by (rule staffMembers_handleDeleteStaff)
  show ?thesis
    unfolding t c s
    using assms
    by (simp add: removed_once_length selectedTask_handleDeleteTask
        selectedCourse_handleDeleteCourse selectedStaff_handleDeleteStaff)
qed

theorem delete_removes_exactly_that_id_witness:
  "\<forall>jt jc js.
     map task.id (tasks (handleDeleteTask jt True 1
        (handleViewTask (hd gapTasks) (exampleTasks ''Administrator'')))) = [3, 5]
   \<and> selectedTask (handleDeleteTask jt True 1
        (handleViewTask (hd gapTasks) (exampleTasks ''Administrator''))) = None
   \<and> selectedTask (handleDeleteTask jt True 5
        (handleViewTask (hd gapTasks) (exampleTasks ''Administrator''))) = Some (hd gapTasks)
   \<and> map course.id (courses (handleDeleteCourse jc True 1 (exampleCourses ''Administrator''))) = [3, 5]
   \<and> map staff.id (staffMembers (handleDeleteStaff js True 5
        (handleViewStaff (last gapStaff) (exampleStaff ''Administrator'')))) = [1, 3]
   \<and> selectedStaff (handleDeleteStaff js True 5
        (handleViewStaff (last gapStaff) (exampleStaff ''Administrator''))) = None"
proof (intro allI)
  fix jt :: "task list \<Rightarrow> string" and jc :: "course list \<Rightarrow> string"
    and js :: "int staff list \<Rightarrow> string"
  have admin: "isAdministrator (handleViewTask (hd gapTasks) (exampleTasks ''Administrator''))"
    "isAdministrator (exampleCourses ''Administrator'')"
    "isAdministrator (handleViewStaff (last gapStaff) (exampleStaff ''Administrator''))"
    by (simp_all add: isAdministrator_view isAdministrator_example)
  have sel: "tasks (handleViewTask (hd gapTasks) (exampleTasks ''Administrator'')) = gapTasks"
    "selectedTask (handleViewTask (hd gapTasks) (exampleTasks ''Administrator'')) = Some (hd gapTasks)"
    "staffMembers (handleViewStaff (last gapStaff) (exampleStaff ''Administrator'')) = gapStaff"
    "selectedStaff (handleViewStaff (last gapStaff) (exampleStaff ''Administrator'')) = Some (last gapStaff)"
    by (simp_all add: handleViewTask_def handleViewStaff_def exampleTasks_simps exampleStaff_simps)
  have ids: "task.id (hd gapTasks) = 1" "staff.id (last gapStaff) = 5"
    "map task.id (filter (\<lambda>t. task.id t \<noteq> 1) gapTasks) = [3, 5]"
    "map course.id (filter (\<lambda>c. course.id c \<noteq> 1) gapCourses) = [3, 5]"
    "map staff.id (filter (\<lambda>s. staff.id s \<noteq> 5) gapStaff) = [1, 3]"
    by (simp_all add: gapTasks_def task_sampleData_def gapCourses_def course_sampleData_def
        sampleCourse_def gapStaff_def staff_sampleData_def sampleStaff_def)
  show "map task.id (tasks (handleDeleteTask jt True 1
        (handleViewTask (hd gapTasks) (exampleTasks ''Administrator'')))) = [3, 5]
   \<and> selectedTask (handleDeleteTask jt True 1
        (handleViewTask (hd gapTasks) (exampleTasks ''Administrator''))) = None
   \<and> selectedTask (handleDeleteTask jt True 5
        (handleViewTask (hd gapTasks) (exampleTasks ''Administrator''))) = Some (hd gapTasks)
   \<and> map course.id (courses (handleDeleteCourse jc True 1 (exampleCourses ''Administrator''))) = [3, 5]
   \<and> map staff.id (staffMembers (handleDeleteStaff js True 5
        (handleViewStaff (last gapStaff) (exampleStaff ''Administrator'')))) = [1, 3]
   \<and> selectedStaff (handleDeleteStaff js True 5
        (handleViewStaff (last gapStaff) (exampleStaff ''Administrator''))) = None"
    using delete_removes_exactly_that_id [OF admin, of jt 1 jc 1 js 5]
      delete_removes_exactly_that_id [OF admin, of jt 5 jc 1 js 5]
    by (simp add: sel ids exampleCourses_simps)
qed

text \<open>
  C10. A confirmed delete of an id that no record carries leaves the collection as it was,
  and the handler still writes the unchanged collection to the store and still issues the
  notification of kind \<^verbatim>\<open>delete\<close>.
\<close>

theorem delete_of_unknown_id_still_saves_and_notifies:
  assumes "isAdministrator ts" and "i \<notin> task.id ` set (tasks ts)"
    and "isAdministrator cs" and "j \<notin> course.id ` set (courses cs)"
    and "isAdministrator ss" and "k \<notin> staff.id ` set (staffMembers ss)"
  shows "tasks (handleDeleteTask jt True i ts) = tasks ts
    \<and> trace (handleDeleteTask jt True i ts) =
        trace ts @ [SetItem ''tasks'' (jt (tasks ts)),
          SetPopup \<lparr>show = True, message = ''Task deleted successfully!'', type = ''delete''\<rparr>]
    \<and> localStorage (handleDeleteTask jt True i ts) ''tasks'' = Some (jt (tasks ts))
    \<and> type (popup (handleDeleteTask jt True i ts)) = ''delete''
    \<and> courses (handleDeleteCourse jc True j cs) = courses cs
    \<and> trace (handleDeleteCourse jc True j cs) =
        trace cs @ [SetItem ''courses'' (jc (courses cs)),
          SetPopup \<lparr>show = True, message = ''Course deleted successfully!'', type = ''delete''\<rparr>]
    \<and> localStorage (handleDeleteCourse jc True j cs) ''courses'' = Some (jc (courses cs))
    \<and> type (popup (handleDeleteCourse jc True j cs)) = ''delete''
    \<and> staffMembers (handleDeleteStaff js True k ss) = staffMembers ss
    \<and> trace (handleDeleteStaff js True k ss) =
        trace ss @ [SetItem ''staffMembers'' (js (staffMembers ss)),
          SetPopup \<lparr>show = True, message = ''Record deleted'', type = ''delete''\<rparr>]
    \<and> localStorage (handleDeleteStaff js True k ss) ''staffMembers'' = Some (js (staffMembers ss))
    \<and> type (popup (handleDeleteStaff js True k ss)) = ''delete''"
proof -
  have "filter (\<lambda>t. task.id t \<noteq> i) (tasks ts) = tasks ts"
    using assms(2) by (rule removed_none)
  moreover have "filter (\<lambda>c. course.id c \<noteq> j) (courses cs) = courses cs"
    using assms(4) by (rule removed_none)
  moreover have "filter (\<lambda>s. staff.id s \<noteq> k) (staffMembers ss) = staffMembers ss"
    using assms(6) by (rule removed_none)
  ultimately show ?thesis
    using assms(1,3,5)
    by (simp add: tasks_handleDeleteTask trace_handleDeleteTask localStorage_handleDeleteTask
        popup_handleDeleteTask courses_handleDeleteCourse trace_handleDeleteCourse
        localStorage_handleDeleteCourse popup_handleDeleteCourse staffMembers_handleDeleteStaff
        trace_handleDeleteStaff localStorage_handleDeleteStaff popup_handleDeleteStaff)
qed

theorem delete_of_unknown_id_still_saves_and_notifies_witness:
  "\<forall>jt jc js.
     tasks (handleDeleteTask jt True 4 (exampleTasks ''Administrator'')) = gapTasks
   \<and> trace (handleDeleteTask jt True 4 (exampleTasks ''Administrator'')) =
        [SetItem ''tasks'' (jt gapTasks),
         SetPopup \<lparr>show = True, message = ''Task deleted successfully!'', type = ''delete''\<rparr>]
   \<and> courses (handleDeleteCourse jc True 2 (exampleCourses ''Administrator'')) = gapCourses
   \<and> localStorage (handleDeleteCourse jc True 2 (exampleCourses ''Administrator'')) ''courses''
        = Some (jc gapCourses)
   \<and> staffMembers (handleDeleteStaff js True 0 (exampleStaff ''Administrator'')) = gapStaff
   \<and> type (popup (handleDeleteStaff js True 0 (exampleStaff ''Administrator''))) = ''delete''"
proof (intro allI)
  fix jt :: "task list \<Rightarrow> string" and jc :: "course list \<Rightarrow> string"
    and js :: "int staff list \<Rightarrow> string"
  have unknown: "4 \<notin> task.id ` set (tasks (exampleTasks ''Administrator''))"
    "2 \<notin> course.id ` set (courses (exampleCourses ''Administrator''))"
    "0 \<notin> staff.id ` set (staffMembers (exampleStaff ''Administrator''))"
    using ids_gapTasks ids_gapCourses ids_gapStaff
    by (simp_all add: exampleTasks_simps exampleCourses_simps exampleStaff_simps
        flip: set_map)
  show "tasks (handleDeleteTask jt True 4 (exampleTasks ''Administrator'')) = gapTasks
   \<and> trace (handleDeleteTask jt True 4 (exampleTasks ''Administrator'')) =
        [SetItem ''tasks'' (jt gapTasks),
         SetPopup \<lparr>show = True, message = ''Task deleted successfully!'', type = ''delete''\<rparr>]
   \<and> courses (handleDeleteCourse jc True 2 (exampleCourses ''Administrator'')) = gapCourses
   \<and> localStorage (handleDeleteCourse jc True 2 (exampleCourses ''Administrator'')) ''courses''
        = Some (jc gapCourses)
   \<and> staffMembers (handleDeleteStaff js True 0 (exampleStaff ''Administrator'')) = gapStaff
   \<and> type (popup (handleDeleteStaff js True 0 (exampleStaff ''Administrator''))) = ''delete''"
    using delete_of_unknown_id_still_saves_and_notifies
      [OF isAdministrator_example(1) unknown(1) isAdministrator_example(2) unknown(2)
        isAdministrator_example(3) unknown(3), of jt jc js]
    by (simp add: exampleTasks_simps exampleCourses_simps exampleStaff_simps)
qed

section \<open>The permission gate\<close>

text \<open>
  C1, as stated, asks that a Staff-role actor who invokes create, update or delete gets an
  error notification and leaves the collection and the store unchanged. The delete
  handlers do so. The create and update handlers read no role: run in a component whose
  role is \<^verbatim>\<open>Staff\<close> they append or replace, write the store and notify success (the
  counterexample below).

  C1, amended. Under every role other than Administrator, in every module and every
  state: the delete handler only issues the error notification (the collection and the
  store are unchanged, whatever the answer to the confirmation would be), the handler
  that opens a record for editing only issues the error notification, and the add/edit
  form, from which alone create and update are invoked, is not rendered.
\<close>

theorem other_roles_denied_delete_and_edit:
  assumes "\<not> isAdministrator ts" and "\<not> isAdministrator cs" and "\<not> isAdministrator ss"
  shows "handleDeleteTask jt confirm i ts =
        setPopup \<lparr>show = True, message = ''You do not have permission to delete tasks.'',
                  type = ''error''\<rparr> ts
    \<and> tasks (handleDeleteTask jt confirm i ts) = tasks ts
    \<and> localStorage (handleDeleteTask jt confirm i ts) = localStorage ts
    \<and> handleEditTask t ts =
        setPopup \<lparr>show = True, message = ''You do not have permission to edit tasks.'',
                  type = ''error''\<rparr> ts
    \<and> \<not> task_formRendered ts
    \<and> handleDeleteCourse jc confirm j cs =
        setPopup \<lparr>show = True, message = ''You do not have permission to delete courses.'',
                  type = ''error''\<rparr> cs
    \<and> courses (handleDeleteCourse jc confirm j cs) = courses cs
    \<and> localStorage (handleDeleteCourse jc confirm j cs) = localStorage cs
    \<and> handleEditCourse c cs =
        setPopup \<lparr>show = True, message = ''You do not have permission to edit courses.'',
                  type = ''error''\<rparr> cs
    \<and> \<not> course_formRendered cs
    \<and> handleDeleteStaff js confirm k ss =
        setPopup \<lparr>show = True, message = ''You do not have permission to delete staff members.'',
                  type = ''error''\<rparr> ss
    \<and> staffMembers (handleDeleteStaff js confirm k ss) = staffMembers ss
    \<and> localStorage (handleDeleteStaff js confirm k ss) = localStorage ss
    \<and> handleEditStaff s ss =
        setPopup \<lparr>show = True, message = ''You do not have permission to edit staff members.'',
                  type = ''error''\<rparr> ss
    \<and> \<not> staff_formRendered ss"
  using assms
  by (simp add: handleDeleteTask_denied handleDeleteCourse_denied handleDeleteStaff_denied
      handleEditTask_denied handleEditCourse_denied handleEditStaff_denied setPopup_frame
      task_formRendered_def course_formRendered_def staff_formRendered_def)

theorem other_roles_denied_delete_and_edit_witness:
  "\<forall>jt jc js.
     tasks (handleDeleteTask jt True 3 (exampleTasks ''Staff'')) = gapTasks
   \<and> localStorage (handleDeleteTask jt True 3 (exampleTasks ''Staff'')) = Map.empty
   \<and> trace (handleDeleteTask jt True 3 (exampleTasks ''Staff'')) =
        [SetPopup \<lparr>show = True, message = ''You do not have permission to delete tasks.'',
                   type = ''error''\<rparr>]
   \<and> courses (handleDeleteCourse jc True 3 (exampleCourses ''Staff'')) = gapCourses
   \<and> editingCourse (handleEditCourse (hd gapCourses) (exampleCourses ''Staff'')) = None
   \<and> staffMembers (handleDeleteStaff js True 3 (exampleStaff ''Staff'')) = gapStaff
   \<and> type (popup (handleDeleteStaff js True 3 (exampleStaff ''Staff''))) = ''error''
   \<and> \<not> staff_formRendered ((exampleStaff ''Staff'')\<lparr>activeTab := ''add-staff''\<rparr>)"
proof (intro allI)
  fix jt :: "task list \<Rightarrow> string" and jc :: "course list \<Rightarrow> string"
    and js :: "int staff list \<Rightarrow> string"
  have other: "\<not> isAdministrator ((exampleStaff ''Staff'')\<lparr>activeTab := ''add-staff''\<rparr>)"
    by (simp add: isAdministrator_def exampleStaff_simps)
  show "tasks (handleDeleteTask jt True 3 (exampleTasks ''Staff'')) = gapTasks
   \<and> localStorage (handleDeleteTask jt True 3 (exampleTasks ''Staff'')) = Map.empty
   \<and> trace (handleDeleteTask jt True 3 (exampleTasks ''Staff'')) =
        [SetPopup \<lparr>show = True, message = ''You do not have permission to delete tasks.'',
                   type = ''error''\<rparr>]
   \<and> courses (handleDeleteCourse jc True 3 (exampleCourses ''Staff'')) = gapCourses
   \<and> editingCourse (handleEditCourse (hd gapCourses) (exampleCourses ''Staff'')) = None
   \<and> staffMembers (handleDeleteStaff js True 3 (exampleStaff ''Staff'')) = gapStaff
   \<and> type (popup (handleDeleteStaff js True 3 (exampleStaff ''Staff''))) = ''error''
   \<and> \<not> staff_formRendered ((exampleStaff ''Staff'')\<lparr>activeTab := ''add-staff''\<rparr>)"
    using other_roles_denied_delete_and_edit
        [OF isAdministrator_example(4,5,6), of jt True 3 "hd gapTasks" jc 3 "hd gapCourses" js 3
          "hd gapStaff"]
      other_roles_denied_delete_and_edit
        [OF isAdministrator_example(4,5) other, of jt True 3 "hd gapTasks" jc 3 "hd gapCourses" js 3
          "hd gapStaff"]
    by (simp add: setPopup_def exampleTasks_simps exampleCourses_simps exampleStaff_simps
        exampleTasks_def task_mounted_def)
qed

theorem create_and_update_handlers_have_no_role_check_counterexample:
  "\<forall>jt jc js.
     userRole (exampleTasks ''Staff'') = ''Staff''
   \<and> tasks (handleTaskAdded jt (exampleTasks ''Staff'')) = gapTasks @ [newTask gapTasks filledTaskForm]
   \<and> localStorage (handleTaskAdded jt (exampleTasks ''Staff'')) ''tasks''
        = Some (jt (gapTasks @ [newTask gapTasks filledTaskForm]))
   \<and> popup (handleTaskAdded jt (exampleTasks ''Staff''))
        = \<lparr>show = True, message = ''Task added successfully!'', type = ''success''\<rparr>
   \<and> length (courses (handleCourseAdded jc (exampleCourses ''Staff''))) = 4
   \<and> type (popup (handleCourseAdded jc (exampleCourses ''Staff''))) = ''success''
   \<and> map staff.id (staffMembers (handleStaffAdded js (Some (submitData filledStaffForm None)) None
        (exampleStaff ''Staff''))) = [1, 3, 5, 6]
   \<and> map name (staffMembers (handleStaffUpdated js (submitData filledStaffForm (Some (hd gapStaff)))
        (exampleStaff ''Staff'')))
        = [''Dr. Ada Perera'', ''Dr. Sarah Johnson'', ''Dr. Michael Williams'']
   \<and> type (popup (handleStaffUpdated js (submitData filledStaffForm (Some (hd gapStaff)))
        (exampleStaff ''Staff''))) = ''success''"
proof (intro allI conjI)
  fix jt :: "task list \<Rightarrow> string" and jc :: "course list \<Rightarrow> string"
    and js :: "int staff list \<Rightarrow> string"
  show "userRole (exampleTasks ''Staff'') = ''Staff''"
    by (simp add: exampleTasks_simps)
  show "tasks (handleTaskAdded jt (exampleTasks ''Staff'')) = gapTasks @ [newTask gapTasks filledTaskForm]"
    by (simp add: tasks_handleTaskAdded exampleTasks_simps filledTaskForm_valid)
  show "localStorage (handleTaskAdded jt (exampleTasks ''Staff'')) ''tasks''
        = Some (jt (gapTasks @ [newTask gapTasks filledTaskForm]))"
    by (simp add: handleTaskAdded_def Let_def setPopup_def saveTasksToStorage_def setItem_def
        exampleTasks_simps filledTaskForm_valid)
  show "popup (handleTaskAdded jt (exampleTasks ''Staff''))
        = \<lparr>show = True, message = ''Task added successfully!'', type = ''success''\<rparr>"
    by (simp add: handleTaskAdded_def Let_def setPopup_def saveTasksToStorage_def setItem_def
        exampleTasks_simps filledTaskForm_valid)
  show "length (courses (handleCourseAdded jc (exampleCourses ''Staff''))) = 4"
    using ids_gapCourses
    by (simp add: courses_handleCourseAdded exampleCourses_simps filledCourseForm_valid
        flip: length_map [of course.id gapCourses])
  show "type (popup (handleCourseAdded jc (exampleCourses ''Staff''))) = ''success''"
    by (simp add: handleCourseAdded_def Let_def setPopup_def saveCoursesToStorage_def setItem_def
        exampleCourses_simps filledCourseForm_valid)
  show "map staff.id (staffMembers (handleStaffAdded js (Some (submitData filledStaffForm None)) None
        (exampleStaff ''Staff''))) = [1, 3, 5, 6]"
    by (simp add: staffMembers_handleStaffAdded exampleStaff_simps ids_gapStaff id_withId
        staffIdOnCreate_def submitData_def spec_nextId_def)
  show "map name (staffMembers (handleStaffUpdated js (submitData filledStaffForm (Some (hd gapStaff)))
        (exampleStaff ''Staff'')))
        = [''Dr. Ada Perera'', ''Dr. Sarah Johnson'', ''Dr. Michael Williams'']"
    by (simp add: handleStaffUpdated_def Let_def setPopup_def saveStaffToStorage_def setItem_def
        exampleStaff_simps gapStaff_def staff_sampleData_def sampleStaff_def submitData_def
        withId_def filledStaffForm_def)
  show "type (popup (handleStaffUpdated js (submitData filledStaffForm (Some (hd gapStaff)))
        (exampleStaff ''Staff''))) = ''success''"
    by (simp add: handleStaffUpdated_def Let_def setPopup_def saveStaffToStorage_def setItem_def)
qed

section \<open>Loading the collection\<close>




section \<open>The filter engine\<close>



section \<open>The secondary id\<close>



section \<open>Save before notification\<close>




end
